theory Spec2Isabelle
  imports Complex_Main
begin

section \<open>Python values and the built-ins the debugger calls\<close>

text \<open>
  The two scripts \<^verbatim>\<open>GUI_FULL.py\<close> and \<^verbatim>\<open>gui_basic.py\<close> are dynamically typed. A value
  that reaches \<^verbatim>\<open>truncate\<close> is one of the alternatives below; the constructor is the
  run-time class that \<^verbatim>\<open>isinstance\<close> tests. \<^verbatim>\<open>bool\<close> and \<^verbatim>\<open>int\<close> are not instances of
  \<^verbatim>\<open>float\<close>; a \<^verbatim>\<open>tuple\<close>, a \<^verbatim>\<open>mathutils.Quaternion\<close> and every other object are not
  instances of \<^verbatim>\<open>list\<close>, \<^verbatim>\<open>mathutils.Vector\<close> or \<^verbatim>\<open>mathutils.Euler\<close>. Iterating over a
  \<^verbatim>\<open>Vector\<close> or an \<^verbatim>\<open>Euler\<close> yields floats.

  The type \<open>'f\<close> is the carrier of Python's \<^verbatim>\<open>float\<close>. Binary floating point is not
  modelled: the built-ins that compute with floats are parameters of the model.
\<close>

datatype 'f pyval =
    PyNone
  | PyBool bool
  | PyInt int
  | PyFloat 'f
  | PyStr string
  | PyList "'f pyval list"
  | PyTuple "'f pyval list"
  | Vector "'f list"
  | Euler "'f list"
  | Quaternion "'f list"
  | PyObject string

text \<open>
  The built-ins of Python that the scripts call on floats and on text:
  \<^verbatim>\<open>round(x, ndigits)\<close> on a float, \<^verbatim>\<open>float(text)\<close> (\<open>None\<close> stands for the
  \<^verbatim>\<open>ValueError\<close> it raises on text that is not a number) and \<^verbatim>\<open>math.degrees\<close>.
\<close>

record 'f python =
  py_round :: "'f \<Rightarrow> int \<Rightarrow> 'f"
  py_float :: "string \<Rightarrow> 'f option"
  py_degrees :: "'f \<Rightarrow> 'f"

section \<open>Exceptions, text and the host's objects\<close>

text \<open>
  An exception is an instance of a subclass of \<^verbatim>\<open>Exception\<close>: its class and its detail
  (for the \<^verbatim>\<open>ValueError\<close> of \<^verbatim>\<open>float(text)\<close> the offending text, for a \<^verbatim>\<open>NameError\<close>
  the name that is not bound).
\<close>

datatype exc_class =
  ValueError | NameError | AttributeError | KeyError | TypeError | SystemError | RuntimeError

datatype exn = Exn (exn_class: exc_class) (exn_detail: string)

text \<open>
  The text of a label, of a log record or of a printed line: literal pieces and the values
  that an f-string or \<^verbatim>\<open>str\<close> converts. The characters that \<^verbatim>\<open>str\<close> produces for a
  value are not modelled; \<open>Str v\<close> stands for \<^verbatim>\<open>str(v)\<close>.
\<close>

datatype 'f piece = Lit string | Str "'f pyval"

type_synonym 'f pytext = "'f piece list"

text \<open>
  A game object of the scene (\<^verbatim>\<open>KX_GameObject\<close>). It belongs to the host; reading one
  of its attributes or calling one of its methods either raises (\<open>Inl\<close>) or yields a
  value (\<open>Inr\<close>). \<open>worldOrientation\<close> holds the angles, in radians, that
  \<^verbatim>\<open>obj.worldOrientation.to_euler()\<close> returns; \<open>properties\<close> holds the game properties in
  the order of \<^verbatim>\<open>getPropertyNames()\<close>; \<open>meshes\<close> holds, for each mesh, the names of its
  materials, and an \<^verbatim>\<open>AttributeError\<close> there is an object without the attribute.
\<close>

record 'f gameobj =
  name :: string
  getPhysicsId :: "exn + int"
  mass :: "exn + 'f"
  linearVelocity :: "exn + 'f list"
  angularVelocity :: "exn + 'f list"
  properties :: "exn + (string \<times> 'f pyval) list"
  worldPosition :: "exn + 'f \<times> 'f \<times> 'f"
  worldOrientation :: "exn + 'f \<times> 'f \<times> 'f"
  worldScale :: "exn + 'f \<times> 'f \<times> 'f"
  meshes :: "exn + string list list"

section \<open>The window\<close>

text \<open>
  A row of a tab's \<^verbatim>\<open>QFormLayout\<close>: \<^verbatim>\<open>addRow(labelText, QLabel(text))\<close> is \<open>Row\<close>,
  \<^verbatim>\<open>addRow(QLabel(text))\<close> is \<open>Span\<close>. The six tabs are created once by \<^verbatim>\<open>__init__\<close>, in
  the order Physics (index 0), Game, Transform, Materials, Animations, Logic Sensors
  (index 5).
\<close>

datatype 'f row = Row string "'f pytext" | Span "'f pytext"

record 'f tabs =
  physics_tab :: "'f row list"
  game_tab :: "'f row list"
  transform_tab :: "'f row list"
  materials_tab :: "'f row list"
  animations_tab :: "'f row list"
  logic_sensors_tab :: "'f row list"

text \<open>
  A button of the object list. \<open>button_visible\<close> is what \<^verbatim>\<open>setVisible\<close> last set; a
  button that was never hidden is shown with the layout it was added to.
\<close>

record button =
  button_text :: string
  button_visible :: bool

text \<open>The calls that reach \<^verbatim>\<open>bge.logic\<close> and \<^verbatim>\<open>bge.render\<close>.\<close>

datatype 'f bge_call = SetLogicTicRate 'f | ShowMouse bool

text \<open>
  A record of the log file (\<^verbatim>\<open>logging.info\<close>, \<^verbatim>\<open>logging.error\<close>) and a message box.
  \<^verbatim>\<open>show_error\<close> builds its text from the message, \<^verbatim>\<open>str(exception)\<close> and the traceback;
  the model keeps the message and the exception.
\<close>

datatype 'f log_record = Info "'f pytext" | Error string "exn option"

text \<open>
  The state a call-back runs in. \<open>scene\<close> is what \<^verbatim>\<open>bge.logic.getCurrentScene().objects\<close>
  yields now (or the exception it raises); \<open>bge_calls\<close> are the calls made on the host so
  far; \<open>mouse_visible\<close> is the module's global variable of that name, \<open>None\<close> while no
  assignment has bound it; the other fields are the attributes of the \<^verbatim>\<open>DebuggerWindow\<close>,
  the message boxes shown, the log file and the standard output.
\<close>

record 'f debugger =
  scene :: "exn + 'f gameobj list"
  bge_calls :: "'f bge_call list"
  mouse_visible :: "bool option"
  search_bar :: string
  fps_input :: string
  object_list_layout :: "button list"
  tabs :: "'f tabs"
  selected_object :: "string option"
  message_boxes :: "(string \<times> exn option) list"
  log_file :: "'f log_record list"
  stdout :: "'f pytext list"

section \<open>Statements that may raise\<close>

text \<open>
  A statement maps the state to the state it leaves, with the exception it raised if it
  did not complete; what it changed before raising stays changed.
\<close>

type_synonym 'f stmt = "'f debugger \<Rightarrow> exn option \<times> 'f debugger"

definition then_do :: "'f stmt \<Rightarrow> 'f stmt \<Rightarrow> 'f stmt" where
  "then_do p q w = (case p w of (None, w') \<Rightarrow> q w' | (Some e, w') \<Rightarrow> (Some e, w'))"

text \<open>\<^verbatim>\<open>try: p  except Exception as e: h(e)\<close>\<close>

definition try_except :: "'f stmt \<Rightarrow> (exn \<Rightarrow> 'f stmt) \<Rightarrow> 'f stmt" where
  "try_except p h w = (case p w of (None, w') \<Rightarrow> (None, w') | (Some e, w') \<Rightarrow> h e w')"

text \<open>Reading an attribute of a host object, then going on with its value.\<close>

definition reading :: "exn + 'a \<Rightarrow> ('a \<Rightarrow> 'f stmt) \<Rightarrow> 'f stmt" where
  "reading a k w = (case a of Inl e \<Rightarrow> (Some e, w) | Inr v \<Rightarrow> k v w)"

definition skip :: "'f stmt" where
  "skip w = (None, w)"

text \<open>The exceptions a statement raised: none or one.\<close>

fun raised :: "exn option \<Rightarrow> exn list" where
  "raised None = []"
| "raised (Some e) = [e]"

text \<open>A statement that changes nothing of the state but the rows of the tabs.\<close>

definition changes_only_tabs :: "'f stmt \<Rightarrow> bool" where
  "changes_only_tabs p = (\<forall>w. snd (p w) = w\<lparr>tabs := tabs (snd (p w))\<rparr>)"

section \<open>The value formatter\<close>

text \<open>
  \<^verbatim>\<open>
  def truncate(value, digits=3):
      if isinstance(value, float):
          return round(value, digits)
      elif isinstance(value, (list, mathutils.Vector, mathutils.Euler)):
          return [truncate(v, digits) for v in value]
      return value
  \<close>
  The list comprehension always builds a \<^verbatim>\<open>list\<close>, also from a \<^verbatim>\<open>Vector\<close> or an
  \<^verbatim>\<open>Euler\<close>.
\<close>

function (sequential) truncate :: "'f python \<Rightarrow> 'f pyval \<Rightarrow> int \<Rightarrow> 'f pyval" where
  "truncate py (PyFloat x) digits = PyFloat (py_round py x digits)"
| "truncate py (PyList vs) digits = PyList (map (\<lambda>v. truncate py v digits) vs)"
| "truncate py (Vector xs) digits = PyList (map (\<lambda>x. truncate py (PyFloat x) digits) xs)"
| "truncate py (Euler xs) digits = PyList (map (\<lambda>x. truncate py (PyFloat x) digits) xs)"
| "truncate py value digits = value"
  by pat_completeness auto
termination
  apply (relation "measure (\<lambda>(py, v, d). size v)")
  apply (auto simp: less_Suc_eq_le size_list_estimation' Suc_le_eq length_pos_if_in_set)
  done

text \<open>The call \<^verbatim>\<open>truncate(value)\<close> with the default \<^verbatim>\<open>digits=3\<close>.\<close>

definition truncate_default :: "'f python \<Rightarrow> 'f pyval \<Rightarrow> 'f pyval" where
  "truncate_default py value = truncate py value 3"

text \<open>\<^verbatim>\<open>len(value)\<close> where the value has a length.\<close>

fun element_count :: "'f pyval \<Rightarrow> nat option" where
  "element_count (PyList vs) = Some (length vs)"
| "element_count (PyTuple vs) = Some (length vs)"
| "element_count (Vector xs) = Some (length xs)"
| "element_count (Euler xs) = Some (length xs)"
| "element_count (Quaternion xs) = Some (length xs)"
| "element_count (PyStr s) = Some (length s)"
| "element_count value = None"

text \<open>The two \<^verbatim>\<open>isinstance\<close> tests of \<^verbatim>\<open>truncate\<close>.\<close>

fun isinstance_float :: "'f pyval \<Rightarrow> bool" where
  "isinstance_float (PyFloat x) = True"
| "isinstance_float value = False"

fun isinstance_list_Vector_Euler :: "'f pyval \<Rightarrow> bool" where
  "isinstance_list_Vector_Euler (PyList vs) = True"
| "isinstance_list_Vector_Euler (Vector xs) = True"
| "isinstance_list_Vector_Euler (Euler xs) = True"
| "isinstance_list_Vector_Euler value = False"

section \<open>Reporting an error (\<^verbatim>\<open>GUI_FULL.py\<close>)\<close>

text \<open>
  \<^verbatim>\<open>show_error(message, exception)\<close> shows one modal message box and writes one
  \<^verbatim>\<open>logging.error\<close> record; it returns normally.
\<close>

definition show_error :: "string \<Rightarrow> exn option \<Rightarrow> 'f stmt" where
  "show_error message exception w =
     (None, w\<lparr>message_boxes := message_boxes w @ [(message, exception)],
              log_file := log_file w @ [Error message exception]\<rparr>)"

definition logging_info :: "'f pytext \<Rightarrow> 'f stmt" where
  "logging_info t w = (None, w\<lparr>log_file := log_file w @ [Info t]\<rparr>)"

definition print :: "'f pytext \<Rightarrow> 'f stmt" where
  "print t w = (None, w\<lparr>stdout := stdout w @ [t]\<rparr>)"

section \<open>The object list and the search filter\<close>

text \<open>
  \<^verbatim>\<open>str.lower()\<close> on the letters of ASCII, and \<^verbatim>\<open>a in b\<close> on strings (\<open>a\<close> occurs in
  \<open>b\<close> as a contiguous run). Object names are taken to be ASCII text.
\<close>

definition lower_char :: "char \<Rightarrow> char" where
  "lower_char c =
     (let n = (of_char c :: nat) in if 65 \<le> n \<and> n \<le> 90 then char_of (n + 32) else c)"

definition lower :: "string \<Rightarrow> string" where
  "lower s = map lower_char s"

fun str_in :: "string \<Rightarrow> string \<Rightarrow> bool" where
  "str_in a [] = (a = [])"
| "str_in a (c # cs) = (take (length a) (c # cs) = a \<or> str_in a cs)"

text \<open>
  \<^verbatim>\<open>
  def update_object_list(self):
      try:
          scene = bge.logic.getCurrentScene()
          self.clear_layout(self.object_list_layout)
          self.object_list_layout = QVBoxLayout()
          self.object_list_widget.setLayout(self.object_list_layout)
          for obj in scene.objects:
              button = QPushButton(obj.name)
              button.clicked.connect(lambda checked, name=obj.name: self.select_object(name))
              self.object_list_layout.addWidget(button)
      except Exception as e:
          self.show_error("Error updating object list", e)
  \<close>
  \<^verbatim>\<open>gui_basic.py\<close> has the same statements without the \<^verbatim>\<open>try\<close>.
\<close>

definition new_button :: "string \<Rightarrow> button" where
  "new_button t = \<lparr>button_text = t, button_visible = True\<rparr>"

definition update_object_list_basic :: "'f stmt" where
  "update_object_list_basic w =
     reading (scene w)
       (\<lambda>objects w'. (None, w'\<lparr>object_list_layout := map (\<lambda>obj. new_button (name obj)) objects\<rparr>))
       w"

definition update_object_list :: "'f stmt" where
  "update_object_list =
     try_except update_object_list_basic (\<lambda>e. show_error ''Error updating object list'' (Some e))"

text \<open>
  \<^verbatim>\<open>
  def filter_objects(self, text):
      try:
          for i in range(self.object_list_layout.count()):
              button = self.object_list_layout.itemAt(i).widget()
              if button:
                  button.setVisible(text.lower() in button.text().lower())
      except Exception as e:
          self.show_error("Error filtering objects", e)
  \<close>
  It is connected to the search bar's \<^verbatim>\<open>textChanged\<close> signal and is called nowhere else.
\<close>

definition setVisible :: "bool \<Rightarrow> button \<Rightarrow> button" where
  "setVisible v b = b\<lparr>button_visible := v\<rparr>"

definition filter_objects_basic :: "string \<Rightarrow> 'f stmt" where
  "filter_objects_basic t w =
     (None, w\<lparr>object_list_layout :=
                map (\<lambda>b. setVisible (str_in (lower t) (lower (button_text b))) b)
                  (object_list_layout w)\<rparr>)"

definition filter_objects :: "string \<Rightarrow> 'f stmt" where
  "filter_objects t =
     try_except (filter_objects_basic t) (\<lambda>e. show_error ''Error filtering objects'' (Some e))"

text \<open>The user edits the search bar: the text changes and the signal calls the slot.\<close>

definition search_bar_edited :: "string \<Rightarrow> 'f stmt" where
  "search_bar_edited t w = filter_objects t (w\<lparr>search_bar := t\<rparr>)"

text \<open>The names the object list shows: the texts of its visible buttons, in order.\<close>

definition displayed :: "'f debugger \<Rightarrow> string list" where
  "displayed w = map button_text (filter button_visible (object_list_layout w))"

section \<open>The property tabs\<close>

text \<open>
  \<^verbatim>\<open>self.tabs.widget(i).layout().addRow(...)\<close>. \<^verbatim>\<open>widget(i)\<close> is \<^verbatim>\<open>None\<close> for an index
  that is not a tab's.
\<close>

definition addRow :: "nat \<Rightarrow> 'f row \<Rightarrow> 'f stmt" where
  "addRow i r w =
     (let t = tabs w in
      if i = 0 then (None, w\<lparr>tabs := t\<lparr>physics_tab := physics_tab t @ [r]\<rparr>\<rparr>)
      else if i = 1 then (None, w\<lparr>tabs := t\<lparr>game_tab := game_tab t @ [r]\<rparr>\<rparr>)
      else if i = 2 then (None, w\<lparr>tabs := t\<lparr>transform_tab := transform_tab t @ [r]\<rparr>\<rparr>)
      else if i = 3 then (None, w\<lparr>tabs := t\<lparr>materials_tab := materials_tab t @ [r]\<rparr>\<rparr>)
      else if i = 4 then (None, w\<lparr>tabs := t\<lparr>animations_tab := animations_tab t @ [r]\<rparr>\<rparr>)
      else if i = 5 then (None, w\<lparr>tabs := t\<lparr>logic_sensors_tab := logic_sensors_tab t @ [r]\<rparr>\<rparr>)
      else (Some (Exn AttributeError ''layout''), w))"

definition empty_tabs :: "'f tabs" where
  "empty_tabs = \<lparr>physics_tab = [], game_tab = [], transform_tab = [], materials_tab = [],
     animations_tab = [], logic_sensors_tab = []\<rparr>"

text \<open>
  The loop over \<^verbatim>\<open>range(self.tabs.count())\<close> that empties every tab's layout
  (\<^verbatim>\<open>clear_layout\<close> in \<^verbatim>\<open>GUI_FULL.py\<close>, \<^verbatim>\<open>deleteLater\<close> on every widget in
  \<^verbatim>\<open>gui_basic.py\<close>).
\<close>

definition clear_tabs :: "'f stmt" where
  "clear_tabs w = (None, w\<lparr>tabs := empty_tabs\<rparr>)"

text \<open>
  \<^verbatim>\<open>
  def populate_physics_tab(self, obj):
      tab = self.tabs.widget(0)
      layout = tab.layout()
      if obj.getPhysicsId():
          layout.addRow("Mass:", QLabel(str(truncate(obj.mass))))
          layout.addRow("Linear Velocity:", QLabel(str(truncate(obj.linearVelocity))))
          layout.addRow("Angular Velocity:", QLabel(str(truncate(obj.angularVelocity))))
      else:
          layout.addRow(QLabel("No physics properties available."))
  \<close>
\<close>

definition populate_physics_tab :: "'f python \<Rightarrow> 'f gameobj \<Rightarrow> 'f stmt" where
  "populate_physics_tab py obj =
     reading (getPhysicsId obj) (\<lambda>physics_id.
       if physics_id \<noteq> 0 then
         then_do (reading (mass obj) (\<lambda>m.
                    addRow 0 (Row ''Mass:'' [Str (truncate_default py (PyFloat m))])))
        (then_do (reading (linearVelocity obj) (\<lambda>v.
                    addRow 0 (Row ''Linear Velocity:'' [Str (truncate_default py (Vector v))])))
                 (reading (angularVelocity obj) (\<lambda>v.
                    addRow 0 (Row ''Angular Velocity:'' [Str (truncate_default py (Vector v))]))))
       else addRow 0 (Span [Lit ''No physics properties available.'']))"

text \<open>
  \<^verbatim>\<open>
  def populate_game_tab(self, obj):
      ...
      for key in obj.getPropertyNames():
          value = obj[key]
          label = QLabel(f"{key}: {truncate(value)}")
          layout.addRow(label)
  \<close>
\<close>

fun game_rows :: "'f python \<Rightarrow> (string \<times> 'f pyval) list \<Rightarrow> string list \<Rightarrow> 'f stmt" where
  "game_rows py props [] = skip"
| "game_rows py props (key # keys) =
     (case map_of props key of
        None \<Rightarrow> (\<lambda>w. (Some (Exn KeyError key), w))
      | Some v \<Rightarrow>
          then_do (addRow 1 (Span [Lit key, Lit '': '', Str (truncate_default py v)]))
                  (game_rows py props keys))"

definition populate_game_tab :: "'f python \<Rightarrow> 'f gameobj \<Rightarrow> 'f stmt" where
  "populate_game_tab py obj =
     reading (properties obj) (\<lambda>props. game_rows py props (map fst props))"

text \<open>
  \<^verbatim>\<open>
  def populate_transform_tab(self, obj):
      ...
      layout.addRow("Position:", QLabel(f"X: {truncate(obj.worldPosition.x)}, Y: ..., Z: ..."))
      layout.addRow("Rotation:", QLabel(f"X: {truncate(math.degrees(
          obj.worldOrientation.to_euler().x))}, Y: ..., Z: ..."))
      layout.addRow("Scale:", QLabel(f"X: {truncate(obj.worldScale.x)}, Y: ..., Z: ..."))
  \<close>
\<close>

definition xyz_text :: "'f python \<Rightarrow> 'f \<times> 'f \<times> 'f \<Rightarrow> 'f pytext" where
  "xyz_text py v =
     (case v of (x, y, z) \<Rightarrow>
        [Lit ''X: '', Str (truncate_default py (PyFloat x)),
         Lit '', Y: '', Str (truncate_default py (PyFloat y)),
         Lit '', Z: '', Str (truncate_default py (PyFloat z))])"

definition populate_transform_tab :: "'f python \<Rightarrow> 'f gameobj \<Rightarrow> 'f stmt" where
  "populate_transform_tab py obj =
     then_do (reading (worldPosition obj) (\<lambda>p. addRow 2 (Row ''Position:'' (xyz_text py p))))
    (then_do (reading (worldOrientation obj) (\<lambda>e.
                case e of (x, y, z) \<Rightarrow>
                  addRow 2 (Row ''Rotation:''
                    (xyz_text py (py_degrees py x, py_degrees py y, py_degrees py z)))))
             (reading (worldScale obj) (\<lambda>s. addRow 2 (Row ''Scale:'' (xyz_text py s)))))"

text \<open>
  \<^verbatim>\<open>
  def populate_materials_tab(self, obj):
      ...
      if hasattr(obj, 'meshes') and obj.meshes:
          materials = [mat.name for mat in obj.meshes[0].materials]
          layout.addRow("Materials:", QLabel(", ".join(materials)))
      else:
          layout.addRow(QLabel("No materials available."))
  \<close>
  \<^verbatim>\<open>hasattr\<close> is false on an \<^verbatim>\<open>AttributeError\<close> and lets every other exception through.
\<close>

fun join :: "string \<Rightarrow> string list \<Rightarrow> string" where
  "join sep [] = []"
| "join sep [x] = x"
| "join sep (x # y # ys) = x @ sep @ join sep (y # ys)"

definition populate_materials_tab :: "'f gameobj \<Rightarrow> 'f stmt" where
  "populate_materials_tab obj =
     (case meshes obj of
        Inl e \<Rightarrow>
          if exn_class e = AttributeError then addRow 3 (Span [Lit ''No materials available.''])
          else (\<lambda>w. (Some e, w))
      | Inr [] \<Rightarrow> addRow 3 (Span [Lit ''No materials available.''])
      | Inr (materials # _) \<Rightarrow> addRow 3 (Row ''Materials:'' [Lit (join '', '' materials)]))"

definition populate_animations_tab :: "'f gameobj \<Rightarrow> 'f stmt" where
  "populate_animations_tab obj = addRow 4 (Span [Lit ''No animation data available.''])"

definition populate_logic_sensors_tab :: "'f gameobj \<Rightarrow> 'f stmt" where
  "populate_logic_sensors_tab obj = addRow 5 (Span [Lit ''No logic sensors available.''])"

section \<open>Updating the tabs for the selected object\<close>

text \<open>
  \<^verbatim>\<open>
  def update_properties_tabs(self):
      if not self.selected_object:
          return
      try:
          scene = bge.logic.getCurrentScene()
          obj = scene.objects.get(self.selected_object)
          if not obj:
              return
          # Clear existing widgets in tabs
          for index in range(self.tabs.count()): ...
          # Populate tabs with properties
          self.populate_physics_tab(obj)
          self.populate_game_tab(obj)
          self.populate_transform_tab(obj)
          self.populate_materials_tab(obj)
          self.populate_animations_tab(obj)
          self.populate_logic_sensors_tab(obj)
      except Exception as e:
          self.show_error(f"Error updating properties for object {self.selected_object}", e)
  \<close>
  \<^verbatim>\<open>not self.selected_object\<close> holds for \<^verbatim>\<open>None\<close> and for the empty string.
  \<^verbatim>\<open>scene.objects.get(name)\<close> is the first object of that name, or \<^verbatim>\<open>None\<close>.
\<close>

definition objects_get :: "'f gameobj list \<Rightarrow> string \<Rightarrow> 'f gameobj option" where
  "objects_get objects n = find (\<lambda>obj. name obj = n) objects"

definition populate_all :: "'f python \<Rightarrow> 'f gameobj \<Rightarrow> 'f stmt" where
  "populate_all py obj =
     then_do (populate_physics_tab py obj)
    (then_do (populate_game_tab py obj)
    (then_do (populate_transform_tab py obj)
    (then_do (populate_materials_tab obj)
    (then_do (populate_animations_tab obj)
             (populate_logic_sensors_tab obj)))))"

definition show_object :: "'f python \<Rightarrow> string \<Rightarrow> 'f stmt" where
  "show_object py selected w =
     reading (scene w)
       (\<lambda>objects.
          case objects_get objects selected of
            None \<Rightarrow> skip
          | Some obj \<Rightarrow> then_do clear_tabs (populate_all py obj))
       w"

definition update_properties_tabs_basic :: "'f python \<Rightarrow> 'f stmt" where
  "update_properties_tabs_basic py w =
     (case selected_object w of
        None \<Rightarrow> (None, w)
      | Some selected \<Rightarrow> if selected = [] then (None, w) else show_object py selected w)"

definition update_properties_tabs :: "'f python \<Rightarrow> 'f stmt" where
  "update_properties_tabs py w =
     (case selected_object w of
        None \<Rightarrow> (None, w)
      | Some selected \<Rightarrow>
          if selected = [] then (None, w)
          else try_except (show_object py selected)
                 (\<lambda>e. show_error (''Error updating properties for object '' @ selected) (Some e))
                 w)"

text \<open>
  \<^verbatim>\<open>
  def select_object(self, object_name):
      self.selected_object = object_name
      logging.info(f"Selected object: {object_name}")
      self.update_properties_tabs()
  \<close>
  (\<^verbatim>\<open>gui_basic.py\<close> does not log.)
\<close>

definition select_object :: "'f python \<Rightarrow> string \<Rightarrow> 'f stmt" where
  "select_object py object_name w =
     then_do (logging_info [Lit ''Selected object: '', Lit object_name])
             (update_properties_tabs py)
       (w\<lparr>selected_object := Some object_name\<rparr>)"

definition select_object_basic :: "'f python \<Rightarrow> string \<Rightarrow> 'f stmt" where
  "select_object_basic py object_name w =
     update_properties_tabs_basic py (w\<lparr>selected_object := Some object_name\<rparr>)"

section \<open>The refresh tick\<close>

text \<open>
  The timer calls \<^verbatim>\<open>refresh_properties\<close> every 500 ms.
  \<^verbatim>\<open>
  def refresh_properties(self):                 # GUI_FULL.py
      try:
          self.update_object_list()
          self.update_properties_tabs()
      except Exception as e:
          self.show_error("Error refreshing properties", e)

  def refresh_properties(self):                 # gui_basic.py
      self.update_object_list()
      self.update_properties_tabs()
  \<close>
\<close>

definition refresh_properties :: "'f python \<Rightarrow> 'f stmt" where
  "refresh_properties py =
     try_except (then_do update_object_list (update_properties_tabs py))
       (\<lambda>e. show_error ''Error refreshing properties'' (Some e))"

definition refresh_properties_basic :: "'f python \<Rightarrow> 'f stmt" where
  "refresh_properties_basic py =
     then_do update_object_list_basic (update_properties_tabs_basic py)"

section \<open>Game controls\<close>

text \<open>
  \<^verbatim>\<open>
  def set_fps(self):                            # GUI_FULL.py
      try:
          fps = float(self.fps_input.text())
          bge.logic.setLogicTicRate(fps)
          logging.info(f"FPS set to {fps}")
      except ValueError as e:
          self.show_error("Invalid FPS value.", e)

  def set_fps(self):                            # gui_basic.py
      try:
          fps = float(self.fps_input.text())
          bge.logic.setLogicTicRate(fps)
          print(f"FPS set to {fps}")
      except ValueError:
          print("Invalid FPS value.")
  \<close>
\<close>

definition setLogicTicRate :: "'f \<Rightarrow> 'f stmt" where
  "setLogicTicRate fps w = (None, w\<lparr>bge_calls := bge_calls w @ [SetLogicTicRate fps]\<rparr>)"

definition set_fps :: "'f python \<Rightarrow> 'f stmt" where
  "set_fps py w =
     (case py_float py (fps_input w) of
        None \<Rightarrow> show_error ''Invalid FPS value.'' (Some (Exn ValueError (fps_input w))) w
      | Some fps \<Rightarrow>
          then_do (setLogicTicRate fps) (logging_info [Lit ''FPS set to '', Str (PyFloat fps)]) w)"

definition set_fps_basic :: "'f python \<Rightarrow> 'f stmt" where
  "set_fps_basic py w =
     (case py_float py (fps_input w) of
        None \<Rightarrow> print [Lit ''Invalid FPS value.''] w
      | Some fps \<Rightarrow>
          then_do (setLogicTicRate fps) (print [Lit ''FPS set to '', Str (PyFloat fps)]) w)"

text \<open>
  \<^verbatim>\<open>
  def toggle_mouse(self):                       # GUI_FULL.py
      global mouse_visible
      try:
          mouse_visible = not mouse_visible
          bge.render.showMouse(mouse_visible)
          logging.info(f"Mouse visibility set to {mouse_visible}")
      except Exception as e:
          self.show_error("Error toggling mouse visibility.", e)

  def toggle_mouse(self):                       # gui_basic.py
      global mouse_visible
      mouse_visible = not mouse_visible
      bge.render.showMouse(mouse_visible)
      print(f"Mouse visibility set to {mouse_visible}")
  \<close>
  Reading a global name that no assignment has bound raises \<^verbatim>\<open>NameError\<close>. Neither
  script assigns \<^verbatim>\<open>mouse_visible\<close> anywhere else.
\<close>

definition showMouse :: "bool \<Rightarrow> 'f stmt" where
  "showMouse v w = (None, w\<lparr>bge_calls := bge_calls w @ [ShowMouse v]\<rparr>)"

definition flip_mouse_visible :: "(bool \<Rightarrow> 'f stmt) \<Rightarrow> 'f stmt" where
  "flip_mouse_visible k w =
     (case mouse_visible w of
        None \<Rightarrow> (Some (Exn NameError ''mouse_visible''), w)
      | Some v \<Rightarrow> k (\<not> v) (w\<lparr>mouse_visible := Some (\<not> v)\<rparr>))"

definition toggle_mouse_basic :: "'f stmt" where
  "toggle_mouse_basic =
     flip_mouse_visible (\<lambda>v.
       then_do (showMouse v) (print [Lit ''Mouse visibility set to '', Str (PyBool v)]))"

definition toggle_mouse :: "'f stmt" where
  "toggle_mouse =
     try_except
       (flip_mouse_visible (\<lambda>v.
          then_do (showMouse v) (logging_info [Lit ''Mouse visibility set to '', Str (PyBool v)])))
       (\<lambda>e. show_error ''Error toggling mouse visibility.'' (Some e))"

section \<open>A session\<close>

text \<open>
  The state when the module has been loaded and \<^verbatim>\<open>__init__\<close> has built the widgets, before
  its last statement \<^verbatim>\<open>self.update_object_list()\<close>: nothing is selected, the tabs are
  empty, the inputs hold their initial texts and \<^verbatim>\<open>mouse_visible\<close> is not bound.
\<close>

definition new_window :: "(exn + 'f gameobj list) \<Rightarrow> 'f debugger" where
  "new_window sc =
     \<lparr>scene = sc, bge_calls = [], mouse_visible = None, search_bar = [], fps_input = ''60'',
      object_list_layout = [], tabs = empty_tabs, selected_object = None,
      message_boxes = [], log_file = [], stdout = []\<rparr>"

text \<open>\<^verbatim>\<open>GUI_FULL.py\<close> logs \<^verbatim>\<open>"BGE Debugger started"\<close> when it is loaded.\<close>

definition DebuggerWindow :: "(exn + 'f gameobj list) \<Rightarrow> exn option \<times> 'f debugger" where
  "DebuggerWindow sc =
     update_object_list ((new_window sc)\<lparr>log_file := [Info [Lit ''BGE Debugger started'']]\<rparr>)"

definition DebuggerWindow_basic :: "(exn + 'f gameobj list) \<Rightarrow> exn option \<times> 'f debugger" where
  "DebuggerWindow_basic sc = update_object_list_basic (new_window sc)"

section \<open>A reference interpretation of the built-ins\<close>

text \<open>
  To run the model on concrete inputs the built-ins are interpreted on exact numbers: a
  float is a real number, an infinity or not-a-number, and no result is rounded to a
  binary format. \<^verbatim>\<open>round(x, ndigits)\<close> rounds to the nearest multiple of
  \<open>10 powi (- ndigits)\<close>, a tie to the even one, and leaves an infinity and not-a-number
  as they are.

  This is an idealisation, not Python's arithmetic on doubles: a written decimal stands
  for that exact number and not for the nearest double, so \<open>2.675\<close> at two digits is a tie
  here and gives \<open>2.68\<close>, where Python rounds the double below it to \<open>2.67\<close>; a result
  that is zero has no sign; and a result is an exact multiple of \<open>10 powi (- ndigits)\<close>,
  which a double in general is not. The interpretation only supplies a concrete \<^verbatim>\<open>round\<close>,
  \<^verbatim>\<open>float\<close> and \<^verbatim>\<open>math.degrees\<close> for examples; the properties of \<^verbatim>\<open>truncate\<close> and of the
  call-backs are stated for every interpretation of the built-ins.
\<close>

datatype pyfloat = Finite real | Infinity bool | NaN

definition round_half_even :: "real \<Rightarrow> int" where
  "round_half_even y =
     (let n = \<lfloor>y\<rfloor>; r = y - of_int n
      in if r < 1 / 2 then n else if 1 / 2 < r then n + 1 else if even n then n else n + 1)"

definition decimal_round :: "real \<Rightarrow> int \<Rightarrow> real" where
  "decimal_round x ndigits = of_int (round_half_even (x * 10 powi ndigits)) / 10 powi ndigits"

fun ref_round :: "pyfloat \<Rightarrow> int \<Rightarrow> pyfloat" where
  "ref_round (Finite x) ndigits = Finite (decimal_round x ndigits)"
| "ref_round x ndigits = x"

text \<open>
  \<^verbatim>\<open>math.degrees(x)\<close> multiplies by the float constant \<^verbatim>\<open>180 / pi\<close>, which Python prints
  as \<^verbatim>\<open>57.29577951308232\<close>.
\<close>

fun ref_degrees :: "pyfloat \<Rightarrow> pyfloat" where
  "ref_degrees (Finite x) = Finite (x * 57.29577951308232)"
| "ref_degrees x = x"

text \<open>
  \<^verbatim>\<open>float(text)\<close> on ASCII text: white space around the number is dropped; a sign may
  come first; then \<^verbatim>\<open>inf\<close>, \<^verbatim>\<open>infinity\<close> or \<^verbatim>\<open>nan\<close> in any case, or digits with an
  optional point and an optional exponent; an underscore may stand between two digits.
\<close>

definition is_space :: "char \<Rightarrow> bool" where
  "is_space c = ((of_char c :: nat) \<in> {9, 10, 11, 12, 13, 32})"

definition is_digit :: "char \<Rightarrow> bool" where
  "is_digit c = (48 \<le> (of_char c :: nat) \<and> (of_char c :: nat) \<le> 57)"

definition strip :: "string \<Rightarrow> string" where
  "strip s = rev (dropWhile is_space (rev (dropWhile is_space s)))"

fun drop_underscores :: "char option \<Rightarrow> string \<Rightarrow> string option" where
  "drop_underscores prev [] = Some []"
| "drop_underscores prev (c # cs) =
     (if c = CHR ''_'' then
        (case (prev, cs) of
           (Some p, d # _) \<Rightarrow>
             if is_digit p \<and> is_digit d then drop_underscores (Some c) cs else None
         | _ \<Rightarrow> None)
      else map_option ((#) c) (drop_underscores (Some c) cs))"

definition digits_value :: "string \<Rightarrow> nat" where
  "digits_value ds = foldl (\<lambda>a c. 10 * a + ((of_char c :: nat) - 48)) 0 ds"

text \<open>The exponent part: nothing, or \<^verbatim>\<open>e\<close>, an optional sign and at least one digit.\<close>

definition exponent_of :: "string \<Rightarrow> int option" where
  "exponent_of s =
     (case s of
        [] \<Rightarrow> Some 0
      | c # cs \<Rightarrow>
          if c = CHR ''e'' \<or> c = CHR ''E'' then
            (let neg = (cs \<noteq> [] \<and> hd cs = CHR ''-'');
                 ds = (if cs \<noteq> [] \<and> (hd cs = CHR ''-'' \<or> hd cs = CHR ''+'') then tl cs else cs)
             in if ds \<noteq> [] \<and> list_all is_digit ds
                then Some (if neg then - int (digits_value ds) else int (digits_value ds))
                else None)
          else None)"

definition decimal_of :: "string \<Rightarrow> real option" where
  "decimal_of s =
     (let ip = takeWhile is_digit s; r1 = dropWhile is_digit s;
          dot = (r1 \<noteq> [] \<and> hd r1 = CHR ''.'');
          fp = (if dot then takeWhile is_digit (tl r1) else []);
          r2 = (if dot then dropWhile is_digit (tl r1) else r1)
      in if ip = [] \<and> fp = [] then None
         else (case exponent_of r2 of
                 None \<Rightarrow> None
               | Some e \<Rightarrow>
                   Some (of_nat (digits_value (ip @ fp)) * 10 powi (e - int (length fp)))))"

definition ref_float :: "string \<Rightarrow> pyfloat option" where
  "ref_float t =
     (let s = strip t;
          neg = (s \<noteq> [] \<and> hd s = CHR ''-'');
          body = (if s \<noteq> [] \<and> (hd s = CHR ''-'' \<or> hd s = CHR ''+'') then tl s else s)
      in if lower body = ''inf'' \<or> lower body = ''infinity'' then Some (Infinity neg)
         else if lower body = ''nan'' then Some NaN
         else (case drop_underscores None body of
                 None \<Rightarrow> None
               | Some digits \<Rightarrow>
                   (case decimal_of digits of
                      None \<Rightarrow> None
                    | Some x \<Rightarrow> Some (Finite (if neg then - x else x)))))"

definition ref_python :: "pyfloat python" where
  "ref_python = \<lparr>py_round = ref_round, py_float = ref_float, py_degrees = ref_degrees\<rparr>"


section \<open>Example scenes\<close>

text \<open>
  An object without physics, game properties or meshes, and a rigid body with two game
  properties and one mesh.
\<close>

definition entity :: "string \<Rightarrow> pyfloat gameobj" where
  "entity n =
     \<lparr>name = n, getPhysicsId = Inr 0, mass = Inr (Finite 0),
      linearVelocity = Inr [Finite 0, Finite 0, Finite 0],
      angularVelocity = Inr [Finite 0, Finite 0, Finite 0],
      properties = Inr [],
      worldPosition = Inr (Finite 0, Finite 0, Finite 0),
      worldOrientation = Inr (Finite 0, Finite 0, Finite 0),
      worldScale = Inr (Finite 1, Finite 1, Finite 1),
      meshes = Inr []\<rparr>"

definition rigid_body :: "string \<Rightarrow> pyfloat gameobj" where
  "rigid_body n =
     (entity n)\<lparr>getPhysicsId := Inr 7, mass := Inr (Finite 1.23456),
       linearVelocity := Inr [Finite 0.12345, Finite 0, Finite (- 9.81)],
       angularVelocity := Inr [Finite 0, Finite 2.5, Finite 0],
       properties := Inr [(''health'', PyInt 42), (''tag'', PyStr ''boss'')],
       meshes := Inr [[''Metal'', ''Glass'']]\<rparr>"

text \<open>A rigid body whose \<^verbatim>\<open>mass\<close> cannot be read.\<close>

definition broken_body :: "string \<Rightarrow> pyfloat gameobj" where
  "broken_body n = (rigid_body n)\<lparr>mass := Inl (Exn SystemError ''mass'')\<rparr>"

text \<open>
  The scene holds \<open>A\<close> and \<open>B\<close>, the window opens, the user clicks \<open>A\<close>; then \<open>A\<close> leaves
  the scene.
\<close>

definition window_AB :: "pyfloat debugger" where
  "window_AB = snd (DebuggerWindow (Inr [rigid_body ''A'', entity ''B'']))"

definition selected_A :: "pyfloat debugger" where
  "selected_A = snd (select_object ref_python ''A'' window_AB)"

definition A_removed :: "pyfloat debugger" where
  "A_removed = selected_A\<lparr>scene := Inr [entity ''B'']\<rparr>"

definition window_AB_basic :: "pyfloat debugger" where
  "window_AB_basic = snd (DebuggerWindow_basic (Inr [rigid_body ''A'', entity ''B'']))"

definition A_removed_basic :: "pyfloat debugger" where
  "A_removed_basic =
     (snd (select_object_basic ref_python ''A'' window_AB_basic))\<lparr>scene := Inr [entity ''B'']\<rparr>"


section \<open>Properties of the reference rounding\<close>


lemma round_half_even_of_int: "round_half_even (of_int m) = m"
  by (simp add: round_half_even_def)

lemma ten_powi_pos: "0 < (10::real) powi d"
  by (simp add: zero_less_power_int)

lemma decimal_round_idem: "decimal_round (decimal_round x d) d = decimal_round x d"
  using ten_powi_pos [of d] by (simp add: decimal_round_def round_half_even_of_int)

lemma ref_round_idem: "ref_round (ref_round x d) d = ref_round x d"
  by (cases x) (simp_all add: decimal_round_idem)

lemma element_count_truncate: "element_count (truncate py v digits) = element_count v"
  by (cases v) simp_all

lemma truncate_idem:
  assumes "\<And>x. py_round py (py_round py x digits) digits = py_round py x digits"
  shows "truncate py (truncate py v digits) digits = truncate py v digits"
  using assms by (induction py v digits rule: truncate.induct) (simp_all add: comp_def)

section \<open>Properties of the value formatter\<close>


text \<open>
  Claim C5. Formatting a formatted value changes nothing, for every value and every number
  of digits, provided that rounding a rounded float with the built-in \<^verbatim>\<open>round\<close> changes
  nothing; under the reference interpretation of \<^verbatim>\<open>round\<close> the proviso holds. The
  formatted value has as many elements as the value.
\<close>

theorem truncate_idempotent:
  "((\<forall>x. py_round py (py_round py x digits) digits = py_round py x digits) \<longrightarrow>
      truncate py (truncate py v digits) digits = truncate py v digits)
   \<and> truncate ref_python (truncate ref_python u digits) digits = truncate ref_python u digits
   \<and> element_count (truncate py v digits) = element_count v"
proof (intro conjI impI)
  assume "\<forall>x. py_round py (py_round py x digits) digits = py_round py x digits"
  then show "truncate py (truncate py v digits) digits = truncate py v digits"
    by (intro truncate_idem) simp
next
  show "truncate ref_python (truncate ref_python u digits) digits = truncate ref_python u digits"
    by (intro truncate_idem) (simp add: ref_python_def ref_round_idem)
next
  show "element_count (truncate py v digits) = element_count v"
    by (rule element_count_truncate)
qed

theorem truncate_idempotent_witness:
  "(\<forall>x. py_round ref_python (py_round ref_python x 3) 3 = py_round ref_python x 3)
   \<and> truncate ref_python (truncate ref_python (Vector [Finite 1.23456, Finite (- 9.81), NaN]) 3) 3
       = truncate ref_python (Vector [Finite 1.23456, Finite (- 9.81), NaN]) 3
   \<and> element_count (truncate ref_python (Vector [Finite 1.23456, Finite (- 9.81), NaN]) 3) = Some 3"
proof -
  have h: "\<forall>x. py_round ref_python (py_round ref_python x 3) 3 = py_round ref_python x 3"
    by (simp add: ref_python_def ref_round_idem)
  show ?thesis
    using h truncate_idempotent [of ref_python 3 "Vector [Finite 1.23456, Finite (- 9.81), NaN]"]
    by simp
qed




text \<open>
  Claim C10. \<^verbatim>\<open>truncate\<close> returns an \<^verbatim>\<open>int\<close> and a \<^verbatim>\<open>bool\<close> unchanged, the property
  value \<open>42\<close> at three digits among them; a value that it changes is a float, a list, a
  \<^verbatim>\<open>Vector\<close> or an \<^verbatim>\<open>Euler\<close>.
\<close>

theorem truncate_leaves_int_and_bool:
  "truncate py (PyInt n) digits = PyInt n
   \<and> truncate py (PyBool b) digits = PyBool b
   \<and> truncate_default py (PyInt 42) = PyInt 42
   \<and> (truncate py v digits \<noteq> v \<longrightarrow> isinstance_float v \<or> isinstance_list_Vector_Euler v)"
  by (cases v) (simp_all add: truncate_default_def)

theorem truncate_leaves_int_and_bool_witness:
  "truncate ref_python (PyFloat (Finite 1.23456)) 3 \<noteq> PyFloat (Finite 1.23456)
   \<and> isinstance_float (PyFloat (Finite 1.23456))
   \<and> truncate ref_python (PyInt 42) 3 = PyInt 42
   \<and> truncate ref_python (PyBool True) 3 = PyBool True"
  using truncate_leaves_int_and_bool [of ref_python 42 3 True "PyFloat (Finite 1.23456)"]
  by (simp add: ref_python_def decimal_round_def round_half_even_def)


section \<open>Statements that change only the tabs\<close>

lemma only_tabs_trans:
  fixes w :: "'f debugger"
  assumes "w' = w\<lparr>tabs := tabs w'\<rparr>" and "w'' = w'\<lparr>tabs := tabs w''\<rparr>"
  shows "w'' = w\<lparr>tabs := tabs w''\<rparr>"
proof -
  have "w'' = (w\<lparr>tabs := tabs w'\<rparr>)\<lparr>tabs := tabs w''\<rparr>"
    using assms by simp
  then show ?thesis by simp
qed

lemma changes_only_tabs_reading:
  "(\<And>v. changes_only_tabs (k v)) \<Longrightarrow> changes_only_tabs (reading a k)"
  unfolding changes_only_tabs_def reading_def
  by (cases a) simp_all

lemma changes_only_tabs_skip: "changes_only_tabs skip"
  unfolding changes_only_tabs_def skip_def by simp

lemma changes_only_tabs_raise: "changes_only_tabs (\<lambda>w. (Some e, w))"
  unfolding changes_only_tabs_def by simp

lemma changes_only_tabs_clear_tabs: "changes_only_tabs clear_tabs"
  unfolding changes_only_tabs_def clear_tabs_def by simp

lemma changes_only_tabs_addRow: "changes_only_tabs (addRow i r)"
  unfolding changes_only_tabs_def addRow_def Let_def by simp

lemma changes_only_tabs_then_do:
  assumes p: "changes_only_tabs p" and q: "changes_only_tabs q"
  shows "changes_only_tabs (then_do p q)"
proof -
  have "snd (then_do p q w) = w\<lparr>tabs := tabs (snd (then_do p q w))\<rparr>" for w
  proof -
    obtain r w' where pw: "p w = (r, w')" by (cases "p w")
    from p have t: "w' = w\<lparr>tabs := tabs w'\<rparr>"
      using pw unfolding changes_only_tabs_def by (metis snd_conv)
    show ?thesis
    proof (cases r)
      case None
      from q have "snd (q w') = w'\<lparr>tabs := tabs (snd (q w'))\<rparr>"
        unfolding changes_only_tabs_def by blast
      with t have "snd (q w') = w\<lparr>tabs := tabs (snd (q w'))\<rparr>" by (rule only_tabs_trans)
      with None pw show ?thesis by (simp add: then_do_def)
    next
      case (Some e)
      with pw t show ?thesis by (simp add: then_do_def)
    qed
  qed
  then show ?thesis by (simp add: changes_only_tabs_def)
qed

lemma changes_only_tabs_game_rows: "changes_only_tabs (game_rows py props keys)"
proof (induction keys)
  case Nil
  show ?case by (simp add: changes_only_tabs_skip)
next
  case (Cons key keys)
  show ?case
  proof (cases "map_of props key")
    case None
    then show ?thesis by (simp add: changes_only_tabs_raise)
  next
    case (Some v)
    then show ?thesis
      by (simp add: changes_only_tabs_then_do changes_only_tabs_addRow Cons.IH)
  qed
qed

lemma changes_only_tabs_populate_physics_tab: "changes_only_tabs (populate_physics_tab py obj)"
  unfolding populate_physics_tab_def
  by (intro changes_only_tabs_reading changes_only_tabs_then_do)
     (simp_all add: changes_only_tabs_addRow changes_only_tabs_then_do changes_only_tabs_reading)

lemma changes_only_tabs_populate_game_tab: "changes_only_tabs (populate_game_tab py obj)"
  unfolding populate_game_tab_def
  by (intro changes_only_tabs_reading changes_only_tabs_game_rows)

lemma changes_only_tabs_populate_transform_tab:
  "changes_only_tabs (populate_transform_tab py obj)"
  unfolding populate_transform_tab_def
  by (intro changes_only_tabs_reading changes_only_tabs_then_do)
     (simp_all add: changes_only_tabs_addRow split: prod.splits)

lemma changes_only_tabs_populate_materials_tab: "changes_only_tabs (populate_materials_tab obj)"
  unfolding populate_materials_tab_def
  by (simp add: changes_only_tabs_addRow changes_only_tabs_raise split: sum.splits list.splits)

lemma changes_only_tabs_populate_all: "changes_only_tabs (populate_all py obj)"
  unfolding populate_all_def populate_animations_tab_def populate_logic_sensors_tab_def
  by (intro changes_only_tabs_then_do changes_only_tabs_populate_physics_tab
      changes_only_tabs_populate_game_tab changes_only_tabs_populate_transform_tab
      changes_only_tabs_populate_materials_tab changes_only_tabs_addRow)

lemma changes_only_tabs_show_object: "changes_only_tabs (show_object py n)"
proof -
  have "changes_only_tabs (reading a (\<lambda>objects.
          case objects_get objects n of None \<Rightarrow> skip
          | Some obj \<Rightarrow> then_do clear_tabs (populate_all py obj)))" for a :: "exn + 'a gameobj list"
    by (intro changes_only_tabs_reading)
       (simp add: changes_only_tabs_then_do changes_only_tabs_skip
         changes_only_tabs_clear_tabs changes_only_tabs_populate_all split: option.splits)
  then show ?thesis
    unfolding changes_only_tabs_def show_object_def by blast
qed

lemma changes_only_tabs_update_properties_tabs_basic:
  "changes_only_tabs (update_properties_tabs_basic py)"
  using changes_only_tabs_show_object [of py]
  unfolding changes_only_tabs_def update_properties_tabs_basic_def
  by (simp split: option.splits)

lemma changes_only_tabs_fields:
  assumes "changes_only_tabs p"
  shows "selected_object (snd (p w)) = selected_object w"
    and "message_boxes (snd (p w)) = message_boxes w"
    and "log_file (snd (p w)) = log_file w"
    and "bge_calls (snd (p w)) = bge_calls w"
    and "scene (snd (p w)) = scene w"
    and "object_list_layout (snd (p w)) = object_list_layout w"
proof -
  define t where "t = tabs (snd (p w))"
  have eq: "snd (p w) = w\<lparr>tabs := t\<rparr>"
    unfolding t_def using assms [unfolded changes_only_tabs_def] by (rule spec)
  show "selected_object (snd (p w)) = selected_object w"
    and "message_boxes (snd (p w)) = message_boxes w"
    and "log_file (snd (p w)) = log_file w"
    and "bge_calls (snd (p w)) = bge_calls w"
    and "scene (snd (p w)) = scene w"
    and "object_list_layout (snd (p w)) = object_list_layout w"
    by (simp_all add: eq)
qed

lemma update_object_list_basic_cases:
  "update_object_list_basic w =
     (case scene w of
        Inl e \<Rightarrow> (Some e, w)
      | Inr objects \<Rightarrow>
          (None, w\<lparr>object_list_layout := map (\<lambda>obj. new_button (name obj)) objects\<rparr>))"
  by (simp add: update_object_list_basic_def reading_def)

lemma update_object_list_cases:
  "update_object_list w =
     (case scene w of
        Inl e \<Rightarrow> show_error ''Error updating object list'' (Some e) w
      | Inr objects \<Rightarrow>
          (None, w\<lparr>object_list_layout := map (\<lambda>obj. new_button (name obj)) objects\<rparr>))"
  by (simp add: update_object_list_def try_except_def update_object_list_basic_cases
      split: sum.splits)

lemma update_properties_tabs_Some:
  assumes "selected_object w = Some n"
  shows "update_properties_tabs py w =
     (case update_properties_tabs_basic py w of
        (None, w') \<Rightarrow> (None, w')
      | (Some e, w') \<Rightarrow> show_error (''Error updating properties for object '' @ n) (Some e) w')"
  using assms
  by (simp add: update_properties_tabs_def update_properties_tabs_basic_def try_except_def
      split: prod.splits option.splits)

lemma update_properties_tabs_None:
  assumes "selected_object w = None"
  shows "update_properties_tabs py w = (None, w)"
    and "update_properties_tabs_basic py w = (None, w)"
  using assms by (simp_all add: update_properties_tabs_def update_properties_tabs_basic_def)

lemma update_properties_tabs_reports:
  "fst (update_properties_tabs py w) = None
   \<and> (\<exists>boxes. message_boxes (snd (update_properties_tabs py w)) = message_boxes w @ boxes
         \<and> map snd boxes = map Some (raised (fst (update_properties_tabs_basic py w))))
   \<and> selected_object (snd (update_properties_tabs py w)) = selected_object w
   \<and> tabs (snd (update_properties_tabs py w)) = tabs (snd (update_properties_tabs_basic py w))"
proof (cases "selected_object w")
  case None
  then show ?thesis by (simp add: update_properties_tabs_None)
next
  case (Some n)
  obtain r w' where b: "update_properties_tabs_basic py w = (r, w')"
    by (cases "update_properties_tabs_basic py w")
  have frame: "message_boxes w' = message_boxes w" "selected_object w' = selected_object w"
    using changes_only_tabs_fields(1,2) [OF changes_only_tabs_update_properties_tabs_basic, of py w] b
    by simp_all
  show ?thesis
  proof (cases r)
    case None
    with b frame show ?thesis by (simp add: update_properties_tabs_Some [OF Some])
  next
    case (Some e)
    with b frame show ?thesis
      by (simp add: update_properties_tabs_Some [OF \<open>selected_object w = Some n\<close>] show_error_def)
  qed
qed


section \<open>Properties of the presenters and of the game controls\<close>

text \<open>
  Claim C7. For an object whose \<^verbatim>\<open>getPhysicsId()\<close> is zero the Physics presenter adds the
  one row "No physics properties available." and nothing else; for an object whose
  \<^verbatim>\<open>getPhysicsId()\<close> is not zero and whose mass and velocities can be read it adds
  exactly the three rows Mass, Linear Velocity and Angular Velocity, each value formatted
  by \<^verbatim>\<open>truncate\<close> with three digits.
\<close>

theorem populate_physics_tab_rows:
  "(getPhysicsId obj = Inr 0 \<longrightarrow>
      populate_physics_tab py obj w =
        (None, w\<lparr>tabs := (tabs w)\<lparr>physics_tab := physics_tab (tabs w) @
           [Span [Lit ''No physics properties available.'']]\<rparr>\<rparr>))
   \<and> (getPhysicsId body = Inr physics_id \<and> physics_id \<noteq> 0 \<and> mass body = Inr m
        \<and> linearVelocity body = Inr lv \<and> angularVelocity body = Inr av \<longrightarrow>
      populate_physics_tab py body w =
        (None, w\<lparr>tabs := (tabs w)\<lparr>physics_tab := physics_tab (tabs w) @
           [Row ''Mass:'' [Str (truncate py (PyFloat m) 3)],
            Row ''Linear Velocity:'' [Str (truncate py (Vector lv) 3)],
            Row ''Angular Velocity:'' [Str (truncate py (Vector av) 3)]]\<rparr>\<rparr>))"
  by (simp add: populate_physics_tab_def reading_def then_do_def addRow_def truncate_default_def
      Let_def)

theorem populate_physics_tab_rows_witness:
  "getPhysicsId (entity ''B'') = Inr 0
   \<and> physics_tab (tabs (snd (populate_physics_tab ref_python (entity ''B'') (new_window (Inr [])))))
       = [Span [Lit ''No physics properties available.'']]
   \<and> getPhysicsId (rigid_body ''A'') = Inr 7 \<and> (7::int) \<noteq> 0
   \<and> mass (rigid_body ''A'') = Inr (Finite 1.23456)
   \<and> linearVelocity (rigid_body ''A'') = Inr [Finite 0.12345, Finite 0, Finite (- 9.81)]
   \<and> angularVelocity (rigid_body ''A'') = Inr [Finite 0, Finite 2.5, Finite 0]
   \<and> physics_tab (tabs (snd (populate_physics_tab ref_python (rigid_body ''A'') (new_window (Inr [])))))
       = [Row ''Mass:'' [Str (PyFloat (Finite 1.235))],
          Row ''Linear Velocity:''
            [Str (PyList [PyFloat (Finite 0.123), PyFloat (Finite 0), PyFloat (Finite (- 9.81))])],
          Row ''Angular Velocity:''
            [Str (PyList [PyFloat (Finite 0), PyFloat (Finite 2.5), PyFloat (Finite 0)])]]"
  using populate_physics_tab_rows [of "entity ''B''" ref_python "new_window (Inr [])"
      "rigid_body ''A''" 7 "Finite 1.23456" "[Finite 0.12345, Finite 0, Finite (- 9.81)]"
      "[Finite 0, Finite 2.5, Finite 0]"]
  by (simp add: entity_def rigid_body_def new_window_def empty_tabs_def ref_python_def
      decimal_round_def round_half_even_def)

text \<open>
  Claim C8. When the text of the FPS input is not a number for \<^verbatim>\<open>float\<close>, \<^verbatim>\<open>set_fps\<close>
  reports exactly one error (one message box and one log record in \<^verbatim>\<open>GUI_FULL.py\<close>, one
  printed line in \<^verbatim>\<open>gui_basic.py\<close>), makes no call on the host and leaves the scene as
  it is.
\<close>

theorem set_fps_rejects_text_that_is_no_number:
  assumes "py_float py (fps_input w) = None"
  shows "set_fps py w =
           (None, w\<lparr>message_boxes := message_boxes w @
                       [(''Invalid FPS value.'', Some (Exn ValueError (fps_input w)))],
                     log_file := log_file w @
                       [Error ''Invalid FPS value.'' (Some (Exn ValueError (fps_input w)))]\<rparr>)
         \<and> bge_calls (snd (set_fps py w)) = bge_calls w
         \<and> scene (snd (set_fps py w)) = scene w
         \<and> set_fps_basic py w = (None, w\<lparr>stdout := stdout w @ [[Lit ''Invalid FPS value.'']]\<rparr>)
         \<and> bge_calls (snd (set_fps_basic py w)) = bge_calls w
         \<and> scene (snd (set_fps_basic py w)) = scene w"
  using assms by (simp add: set_fps_def set_fps_basic_def show_error_def print_def)

theorem set_fps_rejects_text_that_is_no_number_witness:
  "py_float ref_python (fps_input ((new_window (Inr []))\<lparr>fps_input := ''abc''\<rparr>)) = None
   \<and> message_boxes (snd (set_fps ref_python ((new_window (Inr []))\<lparr>fps_input := ''abc''\<rparr>)))
       = [(''Invalid FPS value.'', Some (Exn ValueError ''abc''))]
   \<and> bge_calls (snd (set_fps ref_python ((new_window (Inr []))\<lparr>fps_input := ''abc''\<rparr>))) = []
   \<and> stdout (snd (set_fps_basic ref_python ((new_window (Inr []))\<lparr>fps_input := ''abc''\<rparr>)))
       = [[Lit ''Invalid FPS value.'']]
   \<and> bge_calls (snd (set_fps_basic ref_python ((new_window (Inr []))\<lparr>fps_input := ''abc''\<rparr>))) = []"
proof -
  have h: "py_float ref_python (fps_input ((new_window (Inr []))\<lparr>fps_input := ''abc''\<rparr>)) = None"
    by (simp add: ref_python_def ref_float_def strip_def is_space_def lower_def lower_char_def
        decimal_of_def is_digit_def)
  show ?thesis
    using h set_fps_rejects_text_that_is_no_number [OF h]
    by (simp add: new_window_def)
qed

text \<open>
  While the global \<^verbatim>\<open>mouse_visible\<close> is not bound, a toggle leaves it unbound and calls
  nothing on the host: \<^verbatim>\<open>GUI_FULL.py\<close> reports the \<^verbatim>\<open>NameError\<close>, \<^verbatim>\<open>gui_basic.py\<close> lets it
  through.
\<close>

lemma toggle_mouse_while_unbound:
  assumes "mouse_visible w = None"
  shows "toggle_mouse w =
           show_error ''Error toggling mouse visibility.''
             (Some (Exn NameError ''mouse_visible'')) w"
    and "toggle_mouse_basic w = (Some (Exn NameError ''mouse_visible''), w)"
  using assms
  by (simp_all add: toggle_mouse_def toggle_mouse_basic_def flip_mouse_visible_def
      try_except_def)

text \<open>
  Claim C9 on the code: the window opens on a scene and the user clicks "Toggle Mouse",
  once and then once more. \<^verbatim>\<open>mouse_visible\<close> is a global of the module that no statement
  of either script binds before \<^verbatim>\<open>mouse_visible = not mouse_visible\<close> reads it, so each
  click raises \<^verbatim>\<open>NameError\<close>: no flag is flipped, the global stays unbound and
  \<^verbatim>\<open>bge.render.showMouse\<close> is never called.
\<close>

theorem toggle_mouse_raises_NameError:
  "mouse_visible window_AB = None
   \<and> bge_calls (snd (toggle_mouse window_AB)) = []
   \<and> mouse_visible (snd (toggle_mouse window_AB)) = None
   \<and> message_boxes (snd (toggle_mouse window_AB))
       = [(''Error toggling mouse visibility.'', Some (Exn NameError ''mouse_visible''))]
   \<and> bge_calls (snd (toggle_mouse (snd (toggle_mouse window_AB)))) = []
   \<and> mouse_visible (snd (toggle_mouse (snd (toggle_mouse window_AB)))) = None
   \<and> message_boxes (snd (toggle_mouse (snd (toggle_mouse window_AB))))
       = [(''Error toggling mouse visibility.'', Some (Exn NameError ''mouse_visible'')),
          (''Error toggling mouse visibility.'', Some (Exn NameError ''mouse_visible''))]
   \<and> mouse_visible window_AB_basic = None
   \<and> toggle_mouse_basic window_AB_basic = (Some (Exn NameError ''mouse_visible''), window_AB_basic)"
  by (simp add: window_AB_def window_AB_basic_def DebuggerWindow_def DebuggerWindow_basic_def
      update_object_list_cases update_object_list_basic_cases new_window_def toggle_mouse_def
      toggle_mouse_basic_def flip_mouse_visible_def try_except_def show_error_def)

section \<open>The refresh tick, stage by stage\<close>

lemma update_object_list_reports:
  "fst (update_object_list w) = None
   \<and> (\<exists>boxes. message_boxes (snd (update_object_list w)) = message_boxes w @ boxes
         \<and> map snd boxes = map Some (raised (fst (update_object_list_basic w))))
   \<and> selected_object (snd (update_object_list w)) = selected_object w
   \<and> tabs (snd (update_object_list w)) = tabs w
   \<and> scene (snd (update_object_list w)) = scene w"
  by (cases "scene w")
     (simp_all add: update_object_list_cases update_object_list_basic_cases show_error_def)

lemma update_object_list_basic_keeps:
  "selected_object (snd (update_object_list_basic w)) = selected_object w
   \<and> tabs (snd (update_object_list_basic w)) = tabs w
   \<and> message_boxes (snd (update_object_list_basic w)) = message_boxes w
   \<and> scene (snd (update_object_list_basic w)) = scene w"
  by (cases "scene w") (simp_all add: update_object_list_basic_cases)

lemma refresh_properties_eq:
  "refresh_properties py w = update_properties_tabs py (snd (update_object_list w))"
proof -
  obtain r w1 where u: "update_object_list w = (r, w1)" by (cases "update_object_list w")
  have r: "r = None" using update_object_list_reports [of w] u by simp
  obtain r2 w2 where v: "update_properties_tabs py w1 = (r2, w2)"
    by (cases "update_properties_tabs py w1")
  have r2: "r2 = None" using update_properties_tabs_reports [of py w1] v by simp
  show ?thesis
    using u r v r2 by (simp add: refresh_properties_def try_except_def then_do_def)
qed

lemma refresh_properties_basic_eq:
  "refresh_properties_basic py w =
     (case fst (update_object_list_basic w) of
        Some e \<Rightarrow> (Some e, snd (update_object_list_basic w))
      | None \<Rightarrow> update_properties_tabs_basic py (snd (update_object_list_basic w)))"
  by (cases "update_object_list_basic w")
     (simp add: refresh_properties_basic_def then_do_def split: option.splits)

lemma update_properties_tabs_basic_nothing:
  assumes "selected_object w = None \<or> selected_object w = Some [] \<or> (\<exists>e. scene w = Inl e)
     \<or> (\<exists>objects n. scene w = Inr objects \<and> selected_object w = Some n
           \<and> objects_get objects n = None)"
  shows "snd (update_properties_tabs_basic py w) = w"
  using assms
  by (auto simp: update_properties_tabs_basic_def show_object_def reading_def skip_def
      split: option.splits)

lemma str_in_Nil: "str_in [] s"
  by (cases s) simp_all

lemma displayed_after_filter_objects:
  "displayed (snd (filter_objects t w)) =
     filter (\<lambda>n. str_in (lower t) (lower n)) (map button_text (object_list_layout w))"
  by (simp add: displayed_def filter_objects_def filter_objects_basic_def try_except_def
      setVisible_def filter_map comp_def)

lemma displayed_after_refresh:
  assumes "scene w = Inr objects"
  shows "displayed (snd (refresh_properties py w)) = map name objects"
    and "displayed (snd (refresh_properties_basic py w)) = map name objects"
proof -
  have l: "object_list_layout (snd (update_properties_tabs_basic py w')) = object_list_layout w'"
    for w' :: "'a debugger"
    by (rule changes_only_tabs_fields(6) [OF changes_only_tabs_update_properties_tabs_basic])
  have l': "object_list_layout (snd (update_properties_tabs py w')) = object_list_layout w'"
    for w' :: "'a debugger"
  proof (cases "selected_object w'")
    case None
    then show ?thesis by (simp add: update_properties_tabs_None)
  next
    case (Some n)
    obtain r w'' where b: "update_properties_tabs_basic py w' = (r, w'')"
      by (cases "update_properties_tabs_basic py w'")
    with l [of w'] have "object_list_layout w'' = object_list_layout w'" by simp
    with b show ?thesis
      by (cases r) (simp_all add: update_properties_tabs_Some [OF Some] show_error_def)
  qed
  show "displayed (snd (refresh_properties py w)) = map name objects"
    using assms
    by (simp add: refresh_properties_eq l' update_object_list_cases displayed_def new_button_def
        comp_def)
  show "displayed (snd (refresh_properties_basic py w)) = map name objects"
    using assms
    by (simp add: refresh_properties_basic_eq l update_object_list_basic_cases displayed_def
        new_button_def comp_def)
qed

lemmas run_defs =
  A_removed_def A_removed_basic_def selected_A_def window_AB_def window_AB_basic_def
  DebuggerWindow_def DebuggerWindow_basic_def new_window_def empty_tabs_def
  select_object_def select_object_basic_def refresh_properties_def refresh_properties_basic_def
  update_object_list_def update_object_list_basic_def update_properties_tabs_def
  update_properties_tabs_basic_def show_object_def objects_get_def populate_all_def
  populate_physics_tab_def populate_game_tab_def populate_transform_tab_def
  populate_materials_tab_def populate_animations_tab_def populate_logic_sensors_tab_def
  xyz_text_def addRow_def clear_tabs_def then_do_def try_except_def reading_def skip_def
  show_error_def logging_info_def print_def truncate_default_def new_button_def
  entity_def rigid_body_def broken_body_def ref_python_def decimal_round_def
  round_half_even_def Let_def

section \<open>Properties of the refresh tick\<close>

text \<open>
  Claim C1, as stated, fails: \<open>A\<close> is selected and then leaves the scene; after the next
  refresh the selection is still \<open>A\<close>, which the new scene does not hold. No statement of
  either script resets \<^verbatim>\<open>selected_object\<close>.
\<close>

theorem selection_dangles_counterexample:
  "selected_object A_removed = Some ''A''
   \<and> scene (snd (refresh_properties ref_python A_removed)) = Inr [entity ''B'']
   \<and> objects_get [entity ''B''] ''A'' = None
   \<and> selected_object (snd (refresh_properties ref_python A_removed)) = Some ''A''
   \<and> selected_object (snd (refresh_properties_basic ref_python A_removed_basic)) = Some ''A''"
  by (simp add: run_defs)

text \<open>
  Claim C1, amended. A refresh, and \<^verbatim>\<open>update_properties_tabs\<close> alone, leave the selection
  exactly as it was, whether or not the new scene holds the selected name: a present
  selection is preserved, and an absent one is kept as well, not reset to none.
\<close>

theorem refresh_keeps_selection:
  "selected_object (snd (refresh_properties py w)) = selected_object w
   \<and> selected_object (snd (refresh_properties_basic py w)) = selected_object w
   \<and> selected_object (snd (update_properties_tabs py w)) = selected_object w
   \<and> selected_object (snd (update_properties_tabs_basic py w)) = selected_object w"
proof -
  have b: "selected_object (snd (update_properties_tabs_basic py w')) = selected_object w'"
    for w' :: "'a debugger"
    by (rule changes_only_tabs_fields(1) [OF changes_only_tabs_update_properties_tabs_basic])
  have "selected_object (snd (refresh_properties_basic py w)) = selected_object w"
    using update_object_list_basic_keeps [of w]
    by (cases "fst (update_object_list_basic w)") (simp_all add: refresh_properties_basic_eq b)
  then show ?thesis
    using update_object_list_reports [of w] update_properties_tabs_reports [of py]
    by (simp add: refresh_properties_eq b)
qed

text \<open>
  Claim C2, as stated, fails: \<open>A\<close> is selected and then leaves the scene; after the next
  refresh the tabs still show the rows of \<open>A\<close>. \<^verbatim>\<open>update_properties_tabs\<close> returns before
  it clears the tabs when the selected object is not found.
\<close>

theorem stale_rows_counterexample:
  "selected_object A_removed = Some ''A''
   \<and> scene A_removed = Inr [entity ''B'']
   \<and> objects_get [entity ''B''] ''A'' = None
   \<and> game_tab (tabs (snd (refresh_properties ref_python A_removed)))
       = [Span [Lit ''health'', Lit '': '', Str (PyInt 42)],
          Span [Lit ''tag'', Lit '': '', Str (PyStr ''boss'')]]
   \<and> physics_tab (tabs (snd (refresh_properties ref_python A_removed)))
       = [Row ''Mass:'' [Str (PyFloat (Finite 1.235))],
          Row ''Linear Velocity:''
            [Str (PyList [PyFloat (Finite 0.123), PyFloat (Finite 0), PyFloat (Finite (- 9.81))])],
          Row ''Angular Velocity:''
            [Str (PyList [PyFloat (Finite 0), PyFloat (Finite 2.5), PyFloat (Finite 0)])]]
   \<and> tabs (snd (refresh_properties ref_python A_removed)) \<noteq> empty_tabs"
  by (simp add: run_defs)

text \<open>
  Claim C2, amended. When a refresh presents no object (nothing is selected, the selected
  name is empty, the scene cannot be read, or the scene does not hold the selected name),
  it leaves the rows of every tab exactly as they were.
\<close>

theorem refresh_leaves_rows_when_nothing_presented:
  assumes "selected_object w = None \<or> selected_object w = Some []
     \<or> (\<exists>e. scene w = Inl e)
     \<or> (\<exists>objects n. scene w = Inr objects \<and> selected_object w = Some n
           \<and> objects_get objects n = None)"
  shows "tabs (snd (refresh_properties py w)) = tabs w
         \<and> tabs (snd (refresh_properties_basic py w)) = tabs w"
proof -
  let ?w1 = "snd (update_object_list w)"
  let ?w2 = "snd (update_object_list_basic w)"
  have c1: "selected_object ?w1 = None \<or> selected_object ?w1 = Some []
     \<or> (\<exists>e. scene ?w1 = Inl e)
     \<or> (\<exists>objects n. scene ?w1 = Inr objects \<and> selected_object ?w1 = Some n
           \<and> objects_get objects n = None)"
    using assms update_object_list_reports [of w] by simp
  have c2: "selected_object ?w2 = None \<or> selected_object ?w2 = Some []
     \<or> (\<exists>e. scene ?w2 = Inl e)
     \<or> (\<exists>objects n. scene ?w2 = Inr objects \<and> selected_object ?w2 = Some n
           \<and> objects_get objects n = None)"
    using assms update_object_list_basic_keeps [of w] by simp
  have "tabs (snd (refresh_properties py w)) = tabs w"
    using update_properties_tabs_reports [of py ?w1] update_object_list_reports [of w]
    by (simp add: refresh_properties_eq update_properties_tabs_basic_nothing [OF c1])
  moreover have "tabs (snd (refresh_properties_basic py w)) = tabs w"
    using update_object_list_basic_keeps [of w]
    by (cases "fst (update_object_list_basic w)")
       (simp_all add: refresh_properties_basic_eq update_properties_tabs_basic_nothing [OF c2])
  ultimately show ?thesis by simp
qed

theorem refresh_leaves_rows_when_nothing_presented_witness:
  "scene A_removed = Inr [entity ''B''] \<and> selected_object A_removed = Some ''A''
   \<and> objects_get [entity ''B''] ''A'' = None
   \<and> tabs (snd (refresh_properties ref_python A_removed)) = tabs A_removed
   \<and> tabs (snd (refresh_properties_basic ref_python A_removed)) = tabs A_removed"
proof -
  have h: "scene A_removed = Inr [entity ''B''] \<and> selected_object A_removed = Some ''A''
     \<and> objects_get [entity ''B''] ''A'' = None"
    by (simp add: run_defs)
  then have "selected_object A_removed = None \<or> selected_object A_removed = Some []
     \<or> (\<exists>e. scene A_removed = Inl e)
     \<or> (\<exists>objects n. scene A_removed = Inr objects \<and> selected_object A_removed = Some n
           \<and> objects_get objects n = None)"
    by blast
  from refresh_leaves_rows_when_nothing_presented [OF this, of ref_python] h
  show ?thesis by simp
qed

text \<open>
  Claim C3 on the code: the scene holds \<open>A\<close> and \<open>B\<close> and the user types \<open>a\<close> into the search
  bar, so the list shows \<open>A\<close> only; after the next refresh the search bar still holds \<open>a\<close>
  and the list shows \<open>A\<close> and \<open>B\<close>. \<^verbatim>\<open>update_object_list\<close> builds new buttons and does not
  apply the filter to them.
\<close>

theorem filter_lost_on_refresh:
  "displayed (snd (search_bar_edited ''a'' window_AB)) = [''A'']
   \<and> search_bar (snd (refresh_properties ref_python (snd (search_bar_edited ''a'' window_AB)))) = ''a''
   \<and> displayed (snd (refresh_properties ref_python (snd (search_bar_edited ''a'' window_AB))))
       = [''A'', ''B'']"
  by (simp add: run_defs search_bar_edited_def filter_objects_def filter_objects_basic_def
      displayed_def setVisible_def lower_def lower_char_def char_of_def bit_0)

text \<open>
  Claim C4, as stated, fails for \<^verbatim>\<open>gui_basic.py\<close>: an exception raised by reading the scene
  or by a presenter leaves \<^verbatim>\<open>refresh_properties\<close>, and nothing is reported.
\<close>

theorem refresh_basic_propagates_counterexample:
  "refresh_properties_basic ref_python (new_window (Inl (Exn SystemError ''scene'')))
     = (Some (Exn SystemError ''scene''), new_window (Inl (Exn SystemError ''scene'')))
   \<and> fst (refresh_properties_basic ref_python
         ((new_window (Inr [broken_body ''A'']))\<lparr>selected_object := Some ''A''\<rparr>))
       = Some (Exn SystemError ''mass'')
   \<and> message_boxes (snd (refresh_properties_basic ref_python
         ((new_window (Inr [broken_body ''A'']))\<lparr>selected_object := Some ''A''\<rparr>))) = []
   \<and> stdout (snd (refresh_properties_basic ref_python
         ((new_window (Inr [broken_body ''A'']))\<lparr>selected_object := Some ''A''\<rparr>))) = []"
  by (simp add: run_defs)

text \<open>
  Claim C4, amended. In \<^verbatim>\<open>GUI_FULL.py\<close> a refresh always returns normally, and the message
  boxes it adds hold exactly the exceptions raised by the stage that rebuilds the object
  list and by the stage that updates the tabs, each once and in that order. In
  \<^verbatim>\<open>gui_basic.py\<close> the first exception leaves the refresh and no message box is shown.
\<close>

theorem refresh_reports_each_exception_once:
  "fst (refresh_properties py w) = None
   \<and> (\<exists>boxes. message_boxes (snd (refresh_properties py w)) = message_boxes w @ boxes
         \<and> map snd boxes =
             map Some (raised (fst (update_object_list_basic w))
                       @ raised (fst (update_properties_tabs_basic py (snd (update_object_list w))))))
   \<and> fst (refresh_properties_basic py w) =
       (case fst (update_object_list_basic w) of
          Some e \<Rightarrow> Some e
        | None \<Rightarrow> fst (update_properties_tabs_basic py (snd (update_object_list_basic w))))
   \<and> message_boxes (snd (refresh_properties_basic py w)) = message_boxes w"
proof -
  let ?w1 = "snd (update_object_list w)"
  from update_object_list_reports [of w] obtain boxes1 where
    b1: "message_boxes ?w1 = message_boxes w @ boxes1"
        "map snd boxes1 = map Some (raised (fst (update_object_list_basic w)))"
    by blast
  from update_properties_tabs_reports [of py ?w1] obtain boxes2 where
    b2: "message_boxes (snd (update_properties_tabs py ?w1)) = message_boxes ?w1 @ boxes2"
        "map snd boxes2 = map Some (raised (fst (update_properties_tabs_basic py ?w1)))"
    by blast
  have full: "message_boxes (snd (refresh_properties py w)) = message_boxes w @ (boxes1 @ boxes2)
     \<and> map snd (boxes1 @ boxes2) =
         map Some (raised (fst (update_object_list_basic w))
                   @ raised (fst (update_properties_tabs_basic py ?w1)))"
    using b1 b2 by (simp add: refresh_properties_eq)
  have none: "fst (refresh_properties py w) = None"
    using update_properties_tabs_reports [of py ?w1] by (simp add: refresh_properties_eq)
  have m: "message_boxes (snd (update_properties_tabs_basic py w')) = message_boxes w'"
    for w' :: "'a debugger"
    by (rule changes_only_tabs_fields(2) [OF changes_only_tabs_update_properties_tabs_basic])
  have basic: "message_boxes (snd (refresh_properties_basic py w)) = message_boxes w"
    using update_object_list_basic_keeps [of w]
    by (cases "fst (update_object_list_basic w)") (simp_all add: refresh_properties_basic_eq m)
  have propagated: "fst (refresh_properties_basic py w) =
       (case fst (update_object_list_basic w) of
          Some e \<Rightarrow> Some e
        | None \<Rightarrow> fst (update_properties_tabs_basic py (snd (update_object_list_basic w))))"
    by (cases "fst (update_object_list_basic w)") (simp_all add: refresh_properties_basic_eq)
  from full have "\<exists>boxes. message_boxes (snd (refresh_properties py w)) = message_boxes w @ boxes
         \<and> map snd boxes =
             map Some (raised (fst (update_object_list_basic w))
                       @ raised (fst (update_properties_tabs_basic py ?w1)))"
    by blast
  with none basic propagated show ?thesis by blast
qed

end
